theory Spec2Isabelle
  imports Complex_Main "HOL-Library.AList" "HOL-Library.Multiset"
begin

section \<open>Python values used by the pipeline\<close>

subsection \<open>Strings\<close>

text \<open>
  A Python \<open>str\<close> is modelled as a \<open>string\<close> of 8-bit characters, the code points
  below 256. The whitespace removed by \<open>str.strip()\<close> is Python's whitespace among
  them: space, tab, line feed, vertical tab, form feed, carriage return, the separators
  0x1C to 0x1F, next line (0x85) and no-break space (0xA0).
\<close>

definition is_space :: "char \<Rightarrow> bool" where
  "is_space c = (c \<in> set [CHR 0x20, CHR 0x09, CHR 0x0A, CHR 0x0B, CHR 0x0C, CHR 0x0D,
                            CHR 0x1C, CHR 0x1D, CHR 0x1E, CHR 0x1F, CHR 0x85, CHR 0xA0])"

definition strip :: "string \<Rightarrow> string" where
  "strip s = rev (dropWhile is_space (rev (dropWhile is_space s)))"

text \<open>
  \<open>str.upper()\<close> and \<open>str.lower()\<close> are modelled on the ASCII letters. Python also
  converts letters above 0x7F; the result of such a conversion is again above 0x7F, except
  for the sharp s (0xDF), whose capital is \<open>SS\<close>. The pipeline compares converted text
  only with \<open>DECISION\<close>, \<open>CONFIDENCE\<close>, \<open>REASONING\<close>, \<open>TOOLS_NEEDED\<close>,
  \<open>RETRIEVAL_NEEDED\<close>, \<open>none\<close> and \<open>yes\<close>, which hold neither a character above
  0x7F nor \<open>SS\<close>, so these comparisons come out the same.
\<close>

definition char_upper :: "char \<Rightarrow> char" where
  "char_upper c =
     (case map_of (zip ''abcdefghijklmnopqrstuvwxyz'' ''ABCDEFGHIJKLMNOPQRSTUVWXYZ'') c of
        None \<Rightarrow> c | Some u \<Rightarrow> u)"

definition char_lower :: "char \<Rightarrow> char" where
  "char_lower c =
     (case map_of (zip ''ABCDEFGHIJKLMNOPQRSTUVWXYZ'' ''abcdefghijklmnopqrstuvwxyz'') c of
        None \<Rightarrow> c | Some l \<Rightarrow> l)"

definition upper :: "string \<Rightarrow> string" where
  "upper s = map char_upper s"

definition lower :: "string \<Rightarrow> string" where
  "lower s = map char_lower s"

text \<open>\<open>s.split(sep)\<close> for a one-character separator: never empty, \<open>"".split(sep) == [""]\<close>.\<close>

fun split_on :: "char \<Rightarrow> string \<Rightarrow> string list" where
  "split_on sep [] = [[]]"
| "split_on sep (c # cs) =
     (if c = sep then [] # split_on sep cs
      else (case split_on sep cs of [] \<Rightarrow> [[c]] | l # ls \<Rightarrow> (c # l) # ls))"

text \<open>\<open>sep.join(parts)\<close>.\<close>

fun join :: "string \<Rightarrow> string list \<Rightarrow> string" where
  "join sep [] = []"
| "join sep [p] = p"
| "join sep (p # q # ps) = p @ sep @ join sep (q # ps)"

text \<open>\<open>xs[-n:]\<close> and \<open>xs[:n]\<close> for a positive literal \<open>n\<close>.\<close>

definition last_n :: "nat \<Rightarrow> 'a list \<Rightarrow> 'a list" where
  "last_n n xs = drop (length xs - n) xs"

text \<open>\<open>d.get(k, default)\<close> on a dictionary.\<close>

definition dict_get :: "('k \<rightharpoonup> 'v) \<Rightarrow> 'k \<Rightarrow> 'v \<Rightarrow> 'v" where
  "dict_get d k dflt = (case d k of None \<Rightarrow> dflt | Some v \<Rightarrow> v)"

text \<open>\<open>str(n)\<close> for a length.\<close>

definition digit_char :: "nat \<Rightarrow> char" where
  "digit_char d = ''0123456789'' ! (d mod 10)"

fun str_nat :: "nat \<Rightarrow> string" where
  "str_nat n = (if n < 10 then [digit_char n] else str_nat (n div 10) @ [digit_char n])"

declare str_nat.simps [simp del]

subsection \<open>Floats\<close>

text \<open>
  A Python \<open>float\<close> read from text is a finite number, an infinity or NaN. The
  comparison \<open><\<close> is false whenever NaN takes part. The built-ins \<open>min(a, b)\<close>
  and \<open>max(a, b)\<close> keep their first argument unless the second is strictly smaller
  (larger). Arithmetic on finite floats is modelled on the reals.
\<close>

datatype pyfloat = Finite real | PosInf | NegInf | NaN

fun py_lt :: "pyfloat \<Rightarrow> pyfloat \<Rightarrow> bool" where
  "py_lt NaN _ = False"
| "py_lt _ NaN = False"
| "py_lt (Finite x) (Finite y) = (x < y)"
| "py_lt (Finite x) PosInf = True"
| "py_lt (Finite x) NegInf = False"
| "py_lt PosInf _ = False"
| "py_lt NegInf (Finite y) = True"
| "py_lt NegInf PosInf = True"
| "py_lt NegInf NegInf = False"

definition py_min :: "pyfloat \<Rightarrow> pyfloat \<Rightarrow> pyfloat" where
  "py_min a b = (if py_lt b a then b else a)"

definition py_max :: "pyfloat \<Rightarrow> pyfloat \<Rightarrow> pyfloat" where
  "py_max a b = (if py_lt a b then b else a)"

text \<open>
  \<open>max(0.0, min(1.0, c))\<close>. The result is always finite (lemma \<open>clamp_unit_finite\<close>
  below), so the last branch is never taken.
\<close>

definition clamp_unit :: "pyfloat \<Rightarrow> real" where
  "clamp_unit c = (case py_max (Finite 0) (py_min (Finite 1) c) of Finite r \<Rightarrow> r | _ \<Rightarrow> 0)"

text \<open>
  The built-in \<open>float(s)\<close> is a parameter: \<open>None\<close> stands for \<open>ValueError\<close>.
\<close>

type_synonym float_parser = "string \<Rightarrow> pyfloat option"

section \<open>Configuration (config/settings.py)\<close>

datatype log_level = DEBUG | INFO | WARNING | ERROR

record settings =
  rag_top_k :: int
  rag_confidence_threshold :: real
  confidence_high_threshold :: real
  confidence_low_threshold :: real
  log_level :: log_level

definition default_settings :: settings where
  "default_settings = \<lparr>rag_top_k = 8, rag_confidence_threshold = 0.6,
     confidence_high_threshold = 0.75, confidence_low_threshold = 0.5, log_level = INFO\<rparr>"

section \<open>Trace logger (observability/logger.py)\<close>

text \<open>
  \<open>TraceLogger.__init__\<close> sets the level of its logger to \<open>settings.log_level\<close>. The
  numbers are those of the \<open>logging\<close> module; a call at some level is carried out
  when the level of the logger is not above it.
\<close>

fun level_no :: "log_level \<Rightarrow> nat" where
  "level_no DEBUG = 10"
| "level_no INFO = 20"
| "level_no WARNING = 30"
| "level_no ERROR = 40"

definition is_enabled_for :: "settings \<Rightarrow> log_level \<Rightarrow> bool" where
  "is_enabled_for cfg level = (level_no (log_level cfg) \<le> level_no level)"

text \<open>
  The methods \<open>debug\<close>, \<open>info\<close>, \<open>warning\<close> and \<open>error\<close> of the trace logger call
  \<open>_log(level, event, message=message, ...)\<close>, and \<open>_log\<close> hands all its keywords to
  the logger as \<open>extra\<close>. When the level is enabled, \<open>Logger.makeRecord\<close> refuses the
  key \<open>message\<close> with a \<open>KeyError\<close>, whose text is below; when it is not, the call
  returns at once. So such a call either raises (\<open>Some\<close> the text \<open>str(e)\<close>) or
  returns (\<open>None\<close>). The event methods (\<open>tool_called\<close>, \<open>tool_result\<close>,
  \<open>error_occurred\<close>, \<open>decision_made\<close>, \<open>response_composed\<close>,
  \<open>retrieval_performed\<close> and the others) pass no such key and return.
\<close>

definition overwrite_message :: string where
  \<open>overwrite_message = ''"Attempt to overwrite 'message' in LogRecord"''\<close>

definition log_with_message :: "settings \<Rightarrow> log_level \<Rightarrow> string option" where
  "log_with_message cfg level =
     (if is_enabled_for cfg level then Some overwrite_message else None)"

section \<open>Text generation (integrations/llm_provider.py)\<close>

text \<open>
  The text-generation collaborator \<open>generate(prompt, system_prompt, temperature,
  max_tokens)\<close>: \<open>Inr\<close> the generated text, or \<open>Inl\<close> the text \<open>str(e)\<close> of the
  exception raised.
\<close>

type_synonym llm = "string \<Rightarrow> string \<Rightarrow> real \<Rightarrow> nat \<Rightarrow> string + string"

section \<open>Decision engine (agent/decision_engine.py)\<close>

datatype Decision = RETRIEVE | REASON_ONLY | USE_TOOL | CLARIFY | ESCALATE

text \<open>
  \<open>DecisionOutput\<close>. The fields carry the prefix \<open>out_\<close> because the run state
  has fields of the same names.
\<close>

record decision_output =
  out_decision :: Decision
  out_confidence :: real
  out_reasoning :: string
  out_required_tools :: "string list"
  out_retrieval_needed :: bool
  out_escalation_reason :: "string option"

text \<open>The loop of \<open>_parse_decision\<close> that fills the dictionary \<open>parsed\<close>.\<close>

definition parse_line :: "string \<Rightarrow> (string \<rightharpoonup> string) \<Rightarrow> (string \<rightharpoonup> string)" where
  "parse_line line parsed =
     (if CHR '':'' \<in> set line
      then parsed(upper (strip (takeWhile (\<lambda>c. c \<noteq> CHR '':'') line)) \<mapsto>
                  strip (tl (dropWhile (\<lambda>c. c \<noteq> CHR '':'') line)))
      else parsed)"

definition parse_fields :: "string \<Rightarrow> (string \<rightharpoonup> string)" where
  "parse_fields response = fold parse_line (split_on CHR 0x0A (strip response)) Map.empty"

definition decision_map :: "string \<rightharpoonup> Decision" where
  "decision_map = map_of [(''RETRIEVE'', RETRIEVE), (''REASON_ONLY'', REASON_ONLY),
     (''USE_TOOL'', USE_TOOL), (''CLARIFY'', CLARIFY), (''ESCALATE'', ESCALATE)]"

definition parse_decision :: "float_parser \<Rightarrow> string \<Rightarrow> decision_output" where
  "parse_decision float response =
     (let parsed = parse_fields response;
          decision_str = dict_get parsed ''DECISION'' ''ESCALATE'';
          decision = dict_get decision_map decision_str ESCALATE;
          confidence = (case float (dict_get parsed ''CONFIDENCE'' ''0.5'') of
                          Some c \<Rightarrow> clamp_unit c
                        | None \<Rightarrow> 0.5);
          reasoning = dict_get parsed ''REASONING'' ''No reasoning provided'';
          tools_str = dict_get parsed ''TOOLS_NEEDED'' ''none'';
          required_tools = (if lower tools_str \<noteq> ''none''
                            then map strip (split_on CHR '','' tools_str) else []);
          retrieval_needed = (lower (dict_get parsed ''RETRIEVAL_NEEDED'' ''no'') = ''yes'')
      in \<lparr>out_decision = decision, out_confidence = confidence, out_reasoning = reasoning,
          out_required_tools = required_tools, out_retrieval_needed = retrieval_needed,
          out_escalation_reason = None\<rparr>)"

text \<open>
  \<open>_build_decision_prompt\<close>. A conversation turn is the pair of its \<open>role\<close> and
  \<open>content\<close>, both always present (\<open>load_lead_context\<close> builds them so). The lead
  context is a dictionary of printed values.
\<close>

type_synonym turn = "string \<times> string"

definition build_decision_prompt ::
  "string \<Rightarrow> turn list \<Rightarrow> (string \<rightharpoonup> string) \<Rightarrow> nat \<Rightarrow> string" where
  \<open>build_decision_prompt query conversation_history lead_context n_sources =
     (let history_text = join ''\<newline>''
            (map (\<lambda>(role, content). role @ '': '' @ content) (last_n 5 conversation_history));
          sources_text = (if n_sources \<noteq> 0 then str_nat n_sources @ '' sources available''
                          else ''None'')
      in ''You are an autonomous AI agent for a service business. Analyze this situation and decide the best action.\<newline>\<newline>CURRENT QUERY:\<newline>''
         @ query @ ''\<newline>\<newline>RECENT CONVERSATION:\<newline>'' @ history_text
         @ ''\<newline>\<newline>LEAD CONTEXT:\<newline>- Email: '' @ dict_get lead_context ''email'' ''unknown''
         @ ''\<newline>- Name: '' @ dict_get lead_context ''name'' ''unknown''
         @ ''\<newline>- Status: '' @ dict_get lead_context ''status'' ''new''
         @ ''\<newline>- Company: '' @ dict_get lead_context ''company'' ''unknown''
         @ ''\<newline>\<newline>PREVIOUSLY RETRIEVED SOURCES:\<newline>'' @ sources_text
         @ ''\<newline>\<newline>AVAILABLE ACTIONS:\<newline>1. RETRIEVE - Query knowledge base for factual information (pricing, policies, SOPs, FAQs)\<newline>2. REASON_ONLY - Answer using existing context (no retrieval needed)\<newline>3. USE_TOOL - Execute tools (CRM update, book meeting, send email)\<newline>4. CLARIFY - Ask user for more information\<newline>5. ESCALATE - Pass to human (complex, sensitive, or low confidence)\<newline>\<newline>DECISION CRITERIA:\<newline>- Use RETRIEVE if query asks about: pricing, policies, procedures, technical details\<newline>- Use REASON_ONLY if: simple acknowledgment, already have info, conversational\<newline>- Use USE_TOOL if: need to update CRM, book meeting, send email\<newline>- Use CLARIFY if: query is ambiguous, missing key information\<newline>- Use ESCALATE if: sensitive issue, legal question, complaint, beyond capability\<newline>\<newline>Respond in this EXACT format:\<newline>DECISION: [one of: RETRIEVE, REASON_ONLY, USE_TOOL, CLARIFY, ESCALATE]\<newline>CONFIDENCE: [0.0 to 1.0]\<newline>REASONING: [one sentence explaining why]\<newline>TOOLS_NEEDED: [comma-separated list or "none"]\<newline>RETRIEVAL_NEEDED: [yes or no]\<newline>'')\<close>

definition decision_system_prompt :: string where
  "decision_system_prompt =
     ''You are an autonomous agent decision engine. Analyze the situation and decide the best action.''"

text \<open>
  \<open>DecisionEngine.decide\<close>. The \<open>try\<close> block covers the generation call and the
  parser; the \<open>except Exception\<close> branch builds the fallback output.
\<close>

definition decide ::
  "llm \<Rightarrow> float_parser \<Rightarrow> string \<Rightarrow> turn list \<Rightarrow> (string \<rightharpoonup> string) \<Rightarrow> nat
     \<Rightarrow> decision_output" where
  "decide generate float query conversation_history lead_context n_sources =
     (let decision_prompt =
            build_decision_prompt query conversation_history lead_context n_sources
      in case generate decision_prompt decision_system_prompt 0.3 500 of
           Inr response \<Rightarrow> parse_decision float response
         | Inl e \<Rightarrow>
             \<lparr>out_decision = ESCALATE, out_confidence = 0.0,
              out_reasoning = ''Decision engine error: '' @ e,
              out_required_tools = [], out_retrieval_needed = False,
              out_escalation_reason = Some ''internal_error''\<rparr>)"

definition calculate_confidence :: "real \<Rightarrow> real \<Rightarrow> real \<Rightarrow> real \<Rightarrow> bool \<Rightarrow> real" where
  "calculate_confidence sources_quality query_complexity context_completeness
       tool_success_rate conflict_detected =
     (let base_confidence = 0.3 * sources_quality + 0.2 * (1.0 - query_complexity)
                            + 0.3 * context_completeness + 0.2 * tool_success_rate;
          base_confidence = (if conflict_detected then base_confidence * 0.5
                             else base_confidence)
      in max 0.0 (min 1.0 base_confidence))"

text \<open>\<open>DecisionEngine.should_escalate\<close>; \<open>low_threshold\<close> is read from the settings.\<close>

definition engine_should_escalate :: "settings \<Rightarrow> real \<Rightarrow> bool \<Rightarrow> bool \<Rightarrow> bool \<times> string option" where
  "engine_should_escalate cfg confidence error_occurred sensitive_topic =
     (if error_occurred then (True, Some ''error_in_processing'')
      else if sensitive_topic then (True, Some ''sensitive_topic_detected'')
      else if confidence < confidence_low_threshold cfg
        then (True, Some ''confidence_below_threshold'')
      else (False, None))"

section \<open>Evidence (rag/evidence.py)\<close>

text \<open>
  A \<open>datetime\<close> is its instant in microseconds and whether it carries a time zone.
\<close>

record pydatetime =
  timestamp_us :: int
  tz_aware :: bool

text \<open>
  Values a metadata dictionary can hold under \<open>updated_at\<close>, and their truth value.
\<close>

datatype meta_value = MStr string | MInt int | MReal real | MBool bool | MDatetime pydatetime

fun truthy :: "meta_value \<Rightarrow> bool" where
  "truthy (MStr s) = (s \<noteq> [])"
| "truthy (MInt i) = (i \<noteq> 0)"
| "truthy (MReal r) = (r \<noteq> 0)"
| "truthy (MBool b) = b"
| "truthy (MDatetime d) = True"

text \<open>
  The metadata dictionary of a chunk, by the keys the pipeline reads. The keys
  \<open>doc_title\<close>, \<open>doc_type\<close>, \<open>source_file\<close> and \<open>chunk_index\<close> hold values of the
  types \<open>Evidence\<close> declares for them (the chunker writes them so); \<open>None\<close> is an
  absent key.
\<close>

record metadata =
  md_doc_title :: "string option"
  md_doc_type :: "string option"
  md_chunk_index :: "int option"
  md_source_file :: "string option"
  md_updated_at :: "meta_value option"

record evidence =
  source_id :: string
  doc_title :: string
  doc_type :: string
  chunk_text :: string
  score :: real
  chunk_index :: int
  source_file :: string
  metadata :: metadata
  retrieved_at :: "pydatetime option"

section \<open>Reranker (rag/reranker.py)\<close>

record reranker =
  cosine_weight :: real
  recency_weight :: real
  quality_weight :: real

text \<open>\<open>EvidenceReranker()\<close> with the default weights, as \<open>agent/nodes.py\<close> builds it.\<close>

definition default_reranker :: reranker where
  "default_reranker = \<lparr>cosine_weight = 0.6, recency_weight = 0.2, quality_weight = 0.2\<rparr>"

text \<open>
  The clock of the reranker: \<open>datetime.fromisoformat\<close> (\<open>None\<close> for \<open>ValueError\<close>)
  and the instant \<open>datetime.now(timezone.utc)\<close> in microseconds.
\<close>

record clock =
  fromisoformat :: "string \<Rightarrow> pydatetime option"
  now_us :: int

text \<open>
  \<open>_calculate_recency_score\<close>. Every exception of the \<open>try\<close> block gives 0.7:
  \<open>ValueError\<close> of \<open>fromisoformat\<close>, \<open>TypeError\<close> of subtracting a value that
  is not a \<open>datetime\<close> or has no time zone, and \<open>OverflowError\<close> of \<open>math.exp\<close>,
  which is raised when \<open>-days_old / 90\<close> exceeds 709.78, that is for
  \<open>days_old \<le> -63881\<close>. \<open>timedelta.days\<close> rounds towards minus infinity.
\<close>

definition calculate_recency_score :: "clock \<Rightarrow> evidence \<Rightarrow> real" where
  "calculate_recency_score clk e =
     (case md_updated_at (metadata e) of
        None \<Rightarrow> 0.7
      | Some updated_at \<Rightarrow>
          if \<not> truthy updated_at then 0.7
          else
            (case (case updated_at of
                     MStr s \<Rightarrow> fromisoformat clk s
                   | MDatetime d \<Rightarrow> Some d
                   | _ \<Rightarrow> None) of
               None \<Rightarrow> 0.7
             | Some updated_dt \<Rightarrow>
                 if \<not> tz_aware updated_dt then 0.7
                 else
                   (let days_old = (now_us clk - timestamp_us updated_dt) div 86400000000
                    in if days_old \<le> - 63881 then 0.7
                       else exp (- real_of_int days_old / 90))))"

definition quality_map :: "string \<rightharpoonup> real" where
  "quality_map = map_of [(''pricing'', 1.0), (''sop'', 0.95), (''policy'', 0.9),
     (''faq'', 0.8), (''general'', 0.7)]"

definition calculate_quality_score :: "evidence \<Rightarrow> real" where
  "calculate_quality_score e = dict_get quality_map (doc_type e) 0.7"

text \<open>The body of the \<open>for\<close> loop of \<open>rerank\<close>: the score is overwritten in place.\<close>

definition rescore :: "reranker \<Rightarrow> clock \<Rightarrow> evidence \<Rightarrow> evidence" where
  "rescore rr clk e =
     (let cosine_score = score e;
          recency_score = calculate_recency_score clk e;
          quality_score = calculate_quality_score e
      in e\<lparr>score := cosine_weight rr * cosine_score + recency_weight rr * recency_score
                       + quality_weight rr * quality_score\<rparr>)"

text \<open>
  \<open>rerank\<close>. \<open>list.sort(key=..., reverse=True)\<close> is a stable descending sort; so
  is \<open>sort_key\<close> on the negated score.
\<close>

definition rerank :: "reranker \<Rightarrow> clock \<Rightarrow> evidence list \<Rightarrow> evidence list" where
  "rerank rr clk evidence_list =
     (if evidence_list = [] then []
      else sort_key (\<lambda>e. - score e) (map (rescore rr clk) evidence_list))"

text \<open>\<open>filter_low_quality\<close>: \<open>threshold or settings.rag_confidence_threshold\<close>.\<close>

definition filter_low_quality :: "settings \<Rightarrow> evidence list \<Rightarrow> real option \<Rightarrow> evidence list" where
  "filter_low_quality cfg evidence_list threshold =
     (let threshold = (case threshold of
                         None \<Rightarrow> rag_confidence_threshold cfg
                       | Some t \<Rightarrow> if t = 0 then rag_confidence_threshold cfg else t)
      in filter (\<lambda>e. score e \<ge> threshold) evidence_list)"

text \<open>The dictionary \<open>by_type\<close> of \<open>detect_conflicts\<close>.\<close>

definition group_by_type :: "evidence list \<Rightarrow> (string \<rightharpoonup> evidence list)" where
  "group_by_type evidence_list =
     fold (\<lambda>e by_type. by_type(doc_type e \<mapsto> dict_get by_type (doc_type e) [] @ [e]))
       evidence_list Map.empty"

text \<open>\<open>max(scores)\<close> and \<open>min(scores)\<close> of a non-empty list.\<close>

definition list_max :: "real list \<Rightarrow> real" where
  "list_max xs = fold max (tl xs) (hd xs)"

definition list_min :: "real list \<Rightarrow> real" where
  "list_min xs = fold min (tl xs) (hd xs)"

definition spread_conflict :: "(string \<rightharpoonup> evidence list) \<Rightarrow> string \<Rightarrow> bool" where
  "spread_conflict by_type t =
     (case by_type t of
        None \<Rightarrow> False
      | Some es \<Rightarrow> length es > 1 \<and>
          (let scores = map score es in list_max scores - list_min scores > 0.3))"

definition detect_conflicts :: "evidence list \<Rightarrow> bool" where
  "detect_conflicts evidence_list =
     (let by_type = group_by_type evidence_list
      in if spread_conflict by_type ''pricing'' then True
         else if spread_conflict by_type ''policy'' then True
         else False)"

section \<open>Retriever (rag/retriever.py)\<close>

text \<open>
  The result dictionary of the vector store. An entry of \<open>metadatas\<close> can be Python's
  \<open>None\<close>.
\<close>

record query_results =
  ids :: "string list list"
  documents :: "string list list"
  metadatas :: "metadata option list list"
  distances :: "real list list"

type_synonym where_filter = "(string \<times> string) list"

text \<open>
  The collaborators of the retriever: the embedding call and the query of the vector
  store (each \<open>Inl\<close> the text of the exception raised), \<open>self.top_k\<close>, and the
  instant \<open>datetime.utcnow()\<close>.
\<close>

record retriever =
  embed_single :: "string \<Rightarrow> string + real list"
  vector_store_query :: "real list list \<Rightarrow> int \<Rightarrow> where_filter option \<Rightarrow> string + query_results"
  top_k :: int
  utcnow :: pydatetime

definition nth_opt :: "'a list \<Rightarrow> nat \<Rightarrow> 'a option" where
  "nth_opt xs i = (if i < length xs then Some (xs ! i) else None)"

text \<open>
  One round of the conversion loop; \<open>None\<close> when an index is out of range or the
  metadata is \<open>None\<close>, which raises inside the \<open>try\<close> block.
\<close>

definition hit_to_evidence :: "pydatetime \<Rightarrow> query_results \<Rightarrow> nat \<Rightarrow> evidence option" where
  "hit_to_evidence t results i =
     Option.bind (nth_opt (metadatas results) 0) (\<lambda>ms.
     Option.bind (nth_opt ms i) (\<lambda>m.
     Option.bind m (\<lambda>metadata.
     Option.bind (nth_opt (ids results) 0) (\<lambda>is.
     Option.bind (nth_opt is i) (\<lambda>sid.
     Option.bind (nth_opt (documents results) 0) (\<lambda>ds.
     Option.bind (nth_opt ds i) (\<lambda>doc.
     Option.bind (nth_opt (distances results) 0) (\<lambda>dists.
     Option.bind (nth_opt dists i) (\<lambda>dist.
       Some \<lparr>source_id = sid,
             doc_title = (case md_doc_title metadata of None \<Rightarrow> ''unknown'' | Some v \<Rightarrow> v),
             doc_type = (case md_doc_type metadata of None \<Rightarrow> ''unknown'' | Some v \<Rightarrow> v),
             chunk_text = doc,
             score = 1.0 - dist,
             chunk_index = (case md_chunk_index metadata of None \<Rightarrow> 0 | Some v \<Rightarrow> v),
             source_file = (case md_source_file metadata of None \<Rightarrow> ''unknown'' | Some v \<Rightarrow> v),
             metadata = metadata,
             retrieved_at = Some t\<rparr>)))))))))"

definition hits_to_evidence :: "pydatetime \<Rightarrow> query_results \<Rightarrow> evidence list option" where
  "hits_to_evidence t results =
     (if ids results \<noteq> []
      then those (map (hit_to_evidence t results) [0..<length (hd (ids results))])
      else Some [])"

text \<open>
  \<open>RAGRetriever.retrieve\<close>. The embedding call stands before the \<open>try\<close> block, so
  its exception leaves the function (\<open>Inl\<close>); the \<open>try\<close> block covers the query of
  the store and the conversion of its hits.
\<close>

definition requested_k :: "retriever \<Rightarrow> int option \<Rightarrow> int" where
  \<comment> \<open>\<open>k = top_k or self.top_k\<close>\<close>
  "requested_k r top_k_arg =
     (case top_k_arg of None \<Rightarrow> top_k r | Some n \<Rightarrow> if n = 0 then top_k r else n)"

definition build_where :: "string option \<Rightarrow> where_filter option \<Rightarrow> where_filter option" where
  \<comment> \<open>the \<open>where\<close> argument of the query: the merged filter, or \<open>None\<close> when empty\<close>
  "build_where doc_type_filter metadata_filter =
     (let where_filter = (case metadata_filter of None \<Rightarrow> [] | Some f \<Rightarrow> f);
          where_filter = (case doc_type_filter of
                            None \<Rightarrow> where_filter
                          | Some t \<Rightarrow> if t = [] then where_filter
                                     else AList.update ''doc_type'' t where_filter)
      in if where_filter \<noteq> [] then Some where_filter else None)"

definition retrieve ::
  "retriever \<Rightarrow> string \<Rightarrow> int option \<Rightarrow> string option \<Rightarrow> where_filter option
     \<Rightarrow> string + evidence list" where
  "retrieve r query top_k_arg doc_type_filter metadata_filter =
     (let k = requested_k r top_k_arg
      in case embed_single r query of
           Inl e \<Rightarrow> Inl e
         | Inr query_embedding \<Rightarrow>
             (case vector_store_query r [query_embedding] k
                     (build_where doc_type_filter metadata_filter) of
                Inl e \<Rightarrow> Inr []
              | Inr results \<Rightarrow>
                  (case hits_to_evidence (utcnow r) results of
                     None \<Rightarrow> Inr []
                   | Some evidence_list \<Rightarrow> Inr evidence_list)))"

section \<open>Tool execution wrapper (tools/base.py)\<close>

text \<open>
  \<open>ToolResult\<close> is the dataclass of \<open>tools/base.py\<close>. The structured payload
  \<open>data\<close> is opaque to the retry harness and is kept as an optional string.
\<close>

record tool_result =
  success :: bool
  data :: "string option"
  error :: "string option"
  retry_allowed :: bool

text \<open>
  The abstract method \<open>Tool.execute\<close> is a side-effecting call of an external adapter.
  It is a function on the adapter's world \<open>'w\<close>: it returns the new world and either
  \<open>Inr\<close> a \<open>ToolResult\<close> or \<open>Inl\<close> the text \<open>str(e)\<close> of the exception it raised.
  The keyword arguments are the same at every attempt and are part of the closure.
\<close>

type_synonym 'w adapter = "'w \<Rightarrow> (string + tool_result) \<times> 'w"

text \<open>The result that the \<open>except Exception\<close> branch of the loop builds.\<close>

definition exception_result :: "string \<Rightarrow> tool_result" where
  "exception_result e =
     \<lparr>success = False, data = None, error = Some (''Tool execution exception: '' @ e),
      retry_allowed = False\<rparr>"

text \<open>
  The \<open>while self.retry_count <= self.max_retries\<close> loop of \<open>execute_with_retry\<close>.
  The call \<open>trace_logger.info("Retrying ...")\<close> before \<open>continue\<close> stands inside the
  \<open>try\<close> block, so its exception is handled like one of the adapter. The last
  component of the result counts the calls of \<open>execute\<close> made so far; it is not a value
  of the program, it only observes the loop.
\<close>

function retry_loop ::
  "settings \<Rightarrow> 'w adapter \<Rightarrow> nat \<Rightarrow> nat \<Rightarrow> 'w \<Rightarrow> nat \<Rightarrow> tool_result \<times> 'w \<times> nat" where
  "retry_loop cfg execute max_retries retry_count w calls =
     (if retry_count \<le> max_retries then
        (case execute w of
           (Inl e, w') \<Rightarrow> (exception_result e, w', Suc calls)
         | (Inr result, w') \<Rightarrow>
             if success result \<or> \<not> retry_allowed result then (result, w', Suc calls)
             else if Suc retry_count \<le> max_retries
               then (case log_with_message cfg INFO of
                       Some e \<Rightarrow> (exception_result e, w', Suc calls)
                     | None \<Rightarrow>
                         retry_loop cfg execute max_retries (Suc retry_count) w' (Suc calls))
               else (result, w', Suc calls))
      else
        (\<lparr>success = False, data = None, error = Some ''Max retries exceeded'',
          retry_allowed = False\<rparr>, w, calls))"
  by pat_completeness auto
termination
  by (relation "measure (\<lambda>(cfg, execute, max_retries, retry_count, w, calls).
        Suc max_retries - retry_count)") auto

declare retry_loop.simps [simp del]

text \<open>\<open>Tool.__init__\<close> sets \<open>max_retries = 3\<close>; no adapter of the repository changes it.\<close>

definition max_retries :: nat where
  "max_retries = 3"

definition execute_with_retry :: "settings \<Rightarrow> 'w adapter \<Rightarrow> 'w \<Rightarrow> tool_result \<times> 'w \<times> nat" where
  "execute_with_retry cfg execute w = retry_loop cfg execute max_retries 0 w 0"

text \<open>
  What the adapter does from the world \<open>w\<close> on: the world after \<open>k\<close> calls, the
  outcome of call number \<open>k\<close> (counted from 0), and whether an outcome is a failure
  marked \<open>retry_allowed\<close>.
\<close>

fun world_after :: "'w adapter \<Rightarrow> nat \<Rightarrow> 'w \<Rightarrow> 'w" where
  "world_after execute 0 w = w"
| "world_after execute (Suc k) w = world_after execute k (snd (execute w))"

definition outcome :: "'w adapter \<Rightarrow> nat \<Rightarrow> 'w \<Rightarrow> string + tool_result" where
  "outcome execute k w = fst (execute (world_after execute k w))"

definition transient_failure :: "string + tool_result \<Rightarrow> bool" where
  "transient_failure x =
     (case x of Inl e \<Rightarrow> False | Inr r \<Rightarrow> \<not> success r \<and> retry_allowed r)"

section \<open>Run state (agent/state.py)\<close>

record agent_state =
  lead_id :: string
  lead_email :: string
  query :: string
  source :: string
  lead_context :: "string \<rightharpoonup> string"
  conversation_history :: "turn list"
  decision :: "Decision option"
  decision_reasoning :: string
  confidence :: real
  retrieval_needed :: bool
  retrieved_sources :: "evidence list"
  reranked_sources :: "evidence list"
  response_text :: string
  sources_used :: "string list"
  grounded :: bool
  tools_to_use :: "string list"
  tool_results :: "tool_result list"
  tool_errors :: "string list"
  escalated :: bool
  escalation_reason :: "string option"
  trace_id :: string
  next_action :: "string option"
  errors :: "string list"

section \<open>Pipeline stages (agent/nodes.py)\<close>

text \<open>\<open>decide_action\<close>: the decision output is copied into the run state.\<close>

definition decide_action :: "llm \<Rightarrow> float_parser \<Rightarrow> agent_state \<Rightarrow> agent_state" where
  "decide_action generate float state =
     (let decision_output = decide generate float (query state) (conversation_history state)
                              (lead_context state) (length (retrieved_sources state));
          state = state\<lparr>decision := Some (out_decision decision_output),
                         decision_reasoning := out_reasoning decision_output,
                         confidence := out_confidence decision_output,
                         retrieval_needed := out_retrieval_needed decision_output,
                         tools_to_use := out_required_tools decision_output\<rparr>
      in if out_decision decision_output = ESCALATE
         then state\<lparr>escalated := True,
                     escalation_reason := out_escalation_reason decision_output\<rparr>
         else state)"

text \<open>
  \<open>retrieve_rag\<close>. \<open>rerank\<close> rescores and sorts the list object it is given, so
  \<open>evidence_list\<close> is the reranked list when \<open>retrieved_sources\<close> is written. The node
  has no \<open>try\<close> block: an exception of \<open>retrieve\<close>, or of the call
  \<open>trace_logger.warning("Conflicting sources detected")\<close> that follows the penalty,
  leaves it (\<open>Inl\<close>).
\<close>

definition retrieve_rag ::
  "settings \<Rightarrow> retriever \<Rightarrow> reranker \<Rightarrow> clock \<Rightarrow> agent_state \<Rightarrow> string + agent_state" where
  "retrieve_rag cfg r rr clk state =
     (if \<not> retrieval_needed state then Inr state
      else case retrieve r (query state) (Some (rag_top_k cfg)) None None of
             Inl e \<Rightarrow> Inl e
           | Inr evidence_list \<Rightarrow>
               (let reranked = rerank rr clk evidence_list;
                    filtered = filter_low_quality cfg reranked
                                 (Some (rag_confidence_threshold cfg));
                    conflict_detected = detect_conflicts filtered;
                    state = state\<lparr>retrieved_sources := reranked,
                                   reranked_sources := filtered\<rparr>
                in if conflict_detected
                   then (let state = state\<lparr>confidence := confidence state * 0.7\<rparr>
                         in case log_with_message cfg WARNING of
                              Some e \<Rightarrow> Inl e
                            | None \<Rightarrow> Inr state)
                   else Inr state))"

definition compose_system_prompt :: string where
  \<open>compose_system_prompt = ''You are a professional sales and operations AI agent for a service business.\<newline>Your goal is to help prospects by providing accurate information and moving them through the sales funnel.\<newline>\<newline>Guidelines:\<newline>- Be professional but friendly\<newline>- Ground your answers in the provided sources\<newline>- If sources are insufficient, ask clarifying questions\<newline>- Proactively suggest next steps (book a call, request demo, etc.)\<newline>- Keep responses concise (2-3 paragraphs max)\<newline>''\<close>

definition compose_sources_text :: "agent_state \<Rightarrow> string" where
  "compose_sources_text state =
     (if reranked_sources state \<noteq> []
      then join ''\<newline>\<newline>''
             (map (\<lambda>s. ''[Source: '' @ doc_title s @ '']\<newline>'' @ chunk_text s)
                  (take 3 (reranked_sources state)))
      else [])"

definition compose_prompt :: "agent_state \<Rightarrow> string" where
  "compose_prompt state =
     (let sources_text = compose_sources_text state;
          conversation_text = join ''\<newline>''
            (map (\<lambda>(role, content). role @ '': '' @ content)
                 (last_n 3 (conversation_history state)))
      in ''CONVERSATION HISTORY:\<newline>'' @ conversation_text
         @ ''\<newline>\<newline>CURRENT QUERY:\<newline>'' @ query state
         @ ''\<newline>\<newline>RETRIEVED INFORMATION:\<newline>''
         @ (if sources_text \<noteq> [] then sources_text
            else ''No specific sources retrieved - use general knowledge about sales process.'')
         @ ''\<newline>\<newline>LEAD CONTEXT:\<newline>- Status: '' @ dict_get (lead_context state) ''status'' ''new''
         @ ''\<newline>- Company: '' @ dict_get (lead_context state) ''company'' ''unknown''
         @ ''\<newline>\<newline>Compose a helpful response to the current query.'')"

definition apology :: string where
  \<open>apology = ''I apologize, but I'm having trouble formulating a response. A team member will reach out to you shortly.''\<close>

text \<open>The \<open>except Exception\<close> branch of \<open>compose_response\<close>.\<close>

definition composition_failed :: "agent_state \<Rightarrow> string \<Rightarrow> agent_state" where
  "composition_failed state e =
     state\<lparr>errors := errors state @ [''Response composition failed: '' @ e],
           response_text := apology,
           escalated := True,
           escalation_reason := Some ''response_generation_error''\<rparr>"

text \<open>
  \<open>compose_response\<close>: the \<open>try\<close> block with the generation call and the
  confidence check. The call \<open>trace_logger.warning("Confidence below threshold,
  escalating")\<close> stands inside the \<open>try\<close> block, after the state is marked as
  escalated; its exception is handled by the \<open>except\<close> branch like one of the
  generation call.
\<close>

definition compose_response :: "llm \<Rightarrow> settings \<Rightarrow> agent_state \<Rightarrow> agent_state" where
  "compose_response generate cfg state =
     (case generate (compose_prompt state) compose_system_prompt 0.7 500 of
        Inr text \<Rightarrow>
          (let state = state\<lparr>response_text := text,
                              grounded := (compose_sources_text state \<noteq> []),
                              sources_used := map doc_title (take 3 (reranked_sources state))\<rparr>;
               (should_escalate_flag, reason) =
                  engine_should_escalate cfg (confidence state) False False
           in if should_escalate_flag \<and> \<not> escalated state
              then (let state = state\<lparr>escalated := True, escalation_reason := reason\<rparr>
                    in case log_with_message cfg WARNING of
                         Some e \<Rightarrow> composition_failed state e
                       | None \<Rightarrow> state)
              else state)
      | Inl e \<Rightarrow> composition_failed state e)"

section \<open>Orchestrator (agent/orchestrator.py)\<close>

datatype node = Intake | Load_context | Decide | Retrieve | Compose | Tools | Escalate
  | Memory | Finalize

text \<open>The three routing functions of the module; each returns the key of an edge.\<close>

definition should_retrieve :: "agent_state \<Rightarrow> string" where
  "should_retrieve state = (if retrieval_needed state then ''retrieve'' else ''compose'')"

definition should_use_tools :: "agent_state \<Rightarrow> string" where
  "should_use_tools state = (if tools_to_use state \<noteq> [] then ''tools'' else ''memory'')"

definition should_escalate :: "agent_state \<Rightarrow> string" where
  "should_escalate state = (if escalated state then ''escalate'' else ''memory'')"

text \<open>
  The edges that \<open>_build_graph\<close> adds: \<open>add_edge\<close> gives a fixed successor,
  \<open>add_conditional_edges\<close> looks the key returned by the routing function up in its
  dictionary, and \<open>None\<close> is \<open>END\<close>. The routing function is applied to the state
  the node has returned.
\<close>

fun next_node :: "node \<Rightarrow> agent_state \<Rightarrow> node option" where
  "next_node Intake state = Some Load_context"
| "next_node Load_context state = Some Decide"
| "next_node Decide state =
     map_of [(''retrieve'', Retrieve), (''compose'', Compose)] (should_retrieve state)"
| "next_node Retrieve state = Some Compose"
| "next_node Compose state =
     map_of [(''escalate'', Escalate), (''memory'', Memory)] (should_escalate state)"
| "next_node Tools state = Some Memory"
| "next_node Escalate state = Some Memory"
| "next_node Memory state = Some Finalize"
| "next_node Finalize state = None"

text \<open>The position of a node in the graph, counted from the end.\<close>

fun rank :: "node \<Rightarrow> nat" where
  "rank Intake = 7"
| "rank Load_context = 6"
| "rank Decide = 5"
| "rank Retrieve = 4"
| "rank Compose = 3"
| "rank Tools = 2"
| "rank Escalate = 2"
| "rank Memory = 1"
| "rank Finalize = 0"

text \<open>
  \<open>compiled_graph.invoke\<close> from a given node: the node's function is applied to the
  state, then the outgoing edge is followed. The functions of the nine nodes are a
  parameter; a node that raises ends the run with \<open>Inl\<close>. The first component lists
  the nodes visited, in order.
\<close>

function invoke_from ::
  "(node \<Rightarrow> agent_state \<Rightarrow> string + agent_state) \<Rightarrow> node \<Rightarrow> agent_state
     \<Rightarrow> node list \<times> (string + agent_state)" where
  "invoke_from nodes n state =
     (case nodes n state of
        Inl e \<Rightarrow> ([n], Inl e)
      | Inr state' \<Rightarrow>
          (case next_node n state' of
             None \<Rightarrow> ([n], Inr state')
           | Some n' \<Rightarrow>
               (let (visited, result) = invoke_from nodes n' state'
                in (n # visited, result))))"
  by pat_completeness auto
termination
proof (relation "measure (\<lambda>(nodes, n, state). rank n)")
  show "wf (measure (\<lambda>(nodes, n, state). rank n))"
    by simp
next
  fix nodes :: "node \<Rightarrow> agent_state \<Rightarrow> string + agent_state"
  fix n n' :: node and state state' :: agent_state
  assume "next_node n state' = Some n'"
  then have "rank n' < rank n"
    by (cases n) (auto simp: should_retrieve_def should_escalate_def split: if_splits)
  then show "((nodes, n', state'), (nodes, n, state)) \<in> measure (\<lambda>(nodes, n, state). rank n)"
    by simp
qed

declare invoke_from.simps [simp del]

definition invoke :: "(node \<Rightarrow> agent_state \<Rightarrow> string + agent_state) \<Rightarrow> agent_state
     \<Rightarrow> node list \<times> (string + agent_state)" where
  "invoke nodes state = invoke_from nodes Intake state"

text \<open>The state that \<open>AgentOrchestrator.run\<close> starts from.\<close>

definition initial_state :: "string \<Rightarrow> string \<Rightarrow> string \<Rightarrow> string \<Rightarrow> agent_state" where
  "initial_state email q src tid =
     \<lparr>lead_id = [], lead_email = email, query = q, source = src,
      lead_context = Map.empty, conversation_history = [],
      decision = None, decision_reasoning = [], confidence = 0.0,
      retrieval_needed = False, retrieved_sources = [], reranked_sources = [],
      response_text = [], sources_used = [], grounded = False,
      tools_to_use = [], tool_results = [], tool_errors = [],
      escalated = False, escalation_reason = None,
      trace_id = tid, next_action = None, errors = []\<rparr>"

section \<open>Example data\<close>

text \<open>
  Concrete collaborators and inputs at which the properties below are evaluated: a clock
  at the epoch that reads no date, a store that answers every query with two pricing
  chunks at distances 0 and 0.55, the run state of the question "What are your prices?"
  with confidence 0.6, the evidence that the retrieval stage derives from the two chunks,
  two undated chunks of a given score, and three retrievers whose embedding call, whose
  store query, and whose metadata fail.
\<close>

definition epoch_clock :: clock where
  "epoch_clock = \<lparr>fromisoformat = Map.empty, now_us = 0\<rparr>"

definition pricing_chunk :: "int \<Rightarrow> metadata" where
  "pricing_chunk i = \<lparr>md_doc_title = Some ''prices'', md_doc_type = Some ''pricing'',
     md_chunk_index = Some i, md_source_file = Some ''prices.md'', md_updated_at = None\<rparr>"

definition pricing_store :: retriever where
  "pricing_store =
     \<lparr>embed_single = (\<lambda>text. Inr [0.1, 0.2]),
      vector_store_query = (\<lambda>query_embeddings n_results wh.
        Inr \<lparr>ids = [[''prices_0'', ''prices_1'']],
             documents = [[''Plan A costs 100.'', ''Plan A costs 150.'']],
             metadatas = [[Some (pricing_chunk 0), Some (pricing_chunk 1)]],
             distances = [[0, 0.55]]\<rparr>),
      top_k = 8, utcnow = \<lparr>timestamp_us = 0, tz_aware = False\<rparr>\<rparr>"

definition pricing_question :: agent_state where
  "pricing_question =
     (initial_state ''a@b.c'' ''What are your prices?'' ''website_form'' ''t1'')
       \<lparr>confidence := 0.6, retrieval_needed := True\<rparr>"

definition pricing_hits :: "evidence list" where
  "pricing_hits =
     [\<lparr>source_id = ''prices_0'', doc_title = ''prices'', doc_type = ''pricing'',
       chunk_text = ''Plan A costs 100.'', score = 0.94, chunk_index = 0,
       source_file = ''prices.md'', metadata = pricing_chunk 0,
       retrieved_at = Some \<lparr>timestamp_us = 0, tz_aware = False\<rparr>\<rparr>,
      \<lparr>source_id = ''prices_1'', doc_title = ''prices'', doc_type = ''pricing'',
       chunk_text = ''Plan A costs 150.'', score = 0.61, chunk_index = 1,
       source_file = ''prices.md'', metadata = pricing_chunk 1,
       retrieved_at = Some \<lparr>timestamp_us = 0, tz_aware = False\<rparr>\<rparr>]"

definition plain_metadata :: metadata where
  "plain_metadata = \<lparr>md_doc_title = None, md_doc_type = None, md_chunk_index = None,
     md_source_file = None, md_updated_at = None\<rparr>"

definition general_note :: "real \<Rightarrow> evidence" where
  "general_note s = \<lparr>source_id = ''a'', doc_title = ''notes'', doc_type = ''general'',
     chunk_text = ''We answer within a day.'', score = s, chunk_index = 0,
     source_file = ''notes.md'', metadata = plain_metadata, retrieved_at = None\<rparr>"

definition pricing_note :: "real \<Rightarrow> evidence" where
  "pricing_note s = \<lparr>source_id = ''b'', doc_title = ''prices'', doc_type = ''pricing'',
     chunk_text = ''Plan A costs 100.'', score = s, chunk_index = 0,
     source_file = ''prices.md'', metadata = plain_metadata, retrieved_at = None\<rparr>"

definition embedding_outage :: retriever where
  "embedding_outage = pricing_store\<lparr>embed_single := (\<lambda>text. Inl ''embedding provider unavailable'')\<rparr>"

definition store_outage :: retriever where
  "store_outage = pricing_store\<lparr>vector_store_query :=
     (\<lambda>query_embeddings n_results wh. Inl ''collection not found'')\<rparr>"

definition store_without_metadata :: retriever where
  "store_without_metadata = pricing_store\<lparr>vector_store_query :=
     (\<lambda>query_embeddings n_results wh.
        Inr \<lparr>ids = [[''prices_0'']], documents = [[''Plan A costs 100.'']],
             metadatas = [[None]], distances = [[0.2]]\<rparr>)\<rparr>"

section \<open>Properties of the tool execution wrapper\<close>

lemma world_after_Suc_right: "world_after ex (Suc k) w = snd (ex (world_after ex k w))"
  by (induction k arbitrary: w) simp_all

lemma outcome_Suc: "outcome ex (Suc k) w = outcome ex k (snd (ex w))"
  by (simp add: outcome_def)

lemma retry_loop_calls: "snd (snd (retry_loop cfg ex m rc w c)) \<le> c + (Suc m - rc)"
proof (induction cfg ex m rc w c rule: retry_loop.induct)
  case (1 cfg ex m rc w c)
  obtain x w' where xw: "ex w = (x, w')" by (cases "ex w")
  show ?case
  proof (cases "rc \<le> m")
    case False
    then show ?thesis by (subst retry_loop.simps) simp
  next
    case le: True
    show ?thesis
    proof (cases x)
      case (Inl e)
      with xw le show ?thesis by (subst retry_loop.simps) simp
    next
      case (Inr r)
      show ?thesis
      proof (cases "\<not> (success r \<or> \<not> retry_allowed r) \<and> Suc rc \<le> m")
        case again: True
        show ?thesis
        proof (cases "log_with_message cfg INFO")
          case None
          have "snd (snd (retry_loop cfg ex m (Suc rc) w' (Suc c))) \<le> Suc c + (Suc m - Suc rc)"
            using "1.IH"[OF le xw[symmetric] Inr _ _ None] again by simp
          moreover have "Suc c + (Suc m - Suc rc) = c + (Suc m - rc)" using le by simp
          ultimately have "snd (snd (retry_loop cfg ex m (Suc rc) w' (Suc c))) \<le> c + (Suc m - rc)"
            by simp
          with again xw Inr le None show ?thesis by (subst retry_loop.simps) simp
        next
          case (Some e)
          have "Suc c \<le> c + (Suc m - rc)" using le by simp
          with again xw Inr le Some show ?thesis by (subst retry_loop.simps) simp
        qed
      next
        case False
        with xw Inr le show ?thesis by (subst retry_loop.simps) auto
      qed
    qed
  qed
qed

lemma retry_loop_final_result:
  "rc \<le> m \<Longrightarrow> ex w = (Inr r, w') \<Longrightarrow> success r \<or> \<not> retry_allowed r \<or> m \<le> rc \<Longrightarrow>
   retry_loop cfg ex m rc w c = (r, w', Suc c)"
  by (subst retry_loop.simps) auto

lemma retry_loop_exception:
  "rc \<le> m \<Longrightarrow> ex w = (Inl e, w') \<Longrightarrow>
   retry_loop cfg ex m rc w c = (exception_result e, w', Suc c)"
  by (subst retry_loop.simps) auto

text \<open>
  With the level \<open>INFO\<close> enabled, the first failure that is marked \<open>retry_allowed\<close>
  ends the loop: the announcement of the retry raises, and the result is the one of the
  \<open>except\<close> branch.
\<close>

lemma retry_loop_announcement_raises:
  "Suc rc \<le> m \<Longrightarrow> ex w = (Inr r, w') \<Longrightarrow> \<not> success r \<Longrightarrow> retry_allowed r \<Longrightarrow>
   is_enabled_for cfg INFO \<Longrightarrow>
   retry_loop cfg ex m rc w c = (exception_result overwrite_message, w', Suc c)"
  by (subst retry_loop.simps) (simp add: log_with_message_def)

lemma execute_with_retry_info_enabled:
  assumes "is_enabled_for cfg INFO" and "transient_failure (outcome execute 0 w)"
  shows "execute_with_retry cfg execute w
           = (exception_result overwrite_message, world_after execute 1 w, 1)"
proof -
  from assms(2) obtain r where r: "execute w = (Inr r, snd (execute w))"
      "\<not> success r" "retry_allowed r"
    by (cases "execute w") (auto simp: transient_failure_def outcome_def split: sum.splits)
  show ?thesis
    using retry_loop_announcement_raises[where ex=execute and rc=0 and m=3 and c=0 and cfg=cfg,
            OF _ r assms(1)]
    by (simp add: execute_with_retry_def max_retries_def)
qed

text \<open>
  With the level \<open>INFO\<close> disabled (\<open>WARNING\<close> or \<open>ERROR\<close>), the loop retries as its
  docstring says.
\<close>

lemma retry_loop_skip:
  "log_with_message cfg INFO = None \<Longrightarrow>
   \<forall>j<k. transient_failure (outcome ex j w) \<Longrightarrow> rc + k \<le> m \<Longrightarrow>
   retry_loop cfg ex m rc w c = retry_loop cfg ex m (rc + k) (world_after ex k w) (c + k)"
proof (induction k arbitrary: rc w c)
  case 0
  then show ?case by simp
next
  case (Suc k)
  from Suc.prems(2) have t0: "transient_failure (outcome ex 0 w)" by blast
  then obtain r where r: "ex w = (Inr r, snd (ex w))" "\<not> success r" "retry_allowed r"
    by (cases "ex w") (auto simp: transient_failure_def outcome_def split: sum.splits)
  have rest: "\<forall>j<k. transient_failure (outcome ex j (snd (ex w)))"
    using Suc.prems(2) by (auto simp: outcome_Suc[symmetric])
  have "retry_loop cfg ex m rc w c = retry_loop cfg ex m (Suc rc) (snd (ex w)) (Suc c)"
    using r Suc.prems(1,3) by (subst retry_loop.simps) (cases "ex w", auto)
  also have "\<dots> = retry_loop cfg ex m (Suc rc + k) (world_after ex k (snd (ex w))) (Suc c + k)"
    using Suc.IH[OF Suc.prems(1) rest, of "Suc rc" "Suc c"] Suc.prems(3) by simp
  finally show ?case by simp
qed

lemma execute_with_retry_info_disabled:
  fixes execute :: "'w adapter"
  assumes quiet: "\<not> is_enabled_for cfg INFO"
  shows
  "snd (snd (execute_with_retry cfg execute w)) \<le> 4 \<and>
   ((\<forall>j<4. transient_failure (outcome execute j w)) \<longrightarrow>
      (\<exists>r. outcome execute 3 w = Inr r \<and>
           execute_with_retry cfg execute w = (r, world_after execute 4 w, 4))) \<and>
   (\<forall>k<4. \<forall>r. (\<forall>j<k. transient_failure (outcome execute j w)) \<and>
       outcome execute k w = Inr r \<and> (success r \<or> \<not> retry_allowed r) \<longrightarrow>
       execute_with_retry cfg execute w = (r, world_after execute (Suc k) w, Suc k)) \<and>
   (\<forall>k<4. \<forall>e. (\<forall>j<k. transient_failure (outcome execute j w)) \<and>
       outcome execute k w = Inl e \<longrightarrow>
       execute_with_retry cfg execute w
         = (exception_result e, world_after execute (Suc k) w, Suc k))"
proof (intro conjI allI impI)
  have q: "log_with_message cfg INFO = None"
    using quiet by (simp add: log_with_message_def)
  show "snd (snd (execute_with_retry cfg execute w)) \<le> 4"
    using retry_loop_calls[of cfg execute max_retries 0 w 0]
    by (simp add: execute_with_retry_def max_retries_def)
  {
    assume all: "\<forall>j<4. transient_failure (outcome execute j w)"
    then have first: "\<forall>j<3. transient_failure (outcome execute j w)" by simp
    from all have "transient_failure (outcome execute 3 w)" by simp
    then obtain r where r: "outcome execute 3 w = Inr r"
      by (cases "outcome execute 3 w") (simp_all add: transient_failure_def)
    have ex: "execute (world_after execute 3 w) = (Inr r, world_after execute 4 w)"
      using r world_after_Suc_right[of execute 3 w]
      by (cases "execute (world_after execute 3 w)") (simp add: outcome_def eval_nat_numeral)
    have "execute_with_retry cfg execute w
            = retry_loop cfg execute 3 3 (world_after execute 3 w) 3"
      using retry_loop_skip[OF q first, of 0 3 0]
      by (simp add: execute_with_retry_def max_retries_def)
    also have "\<dots> = (r, world_after execute 4 w, 4)"
      using retry_loop_final_result[where ex=execute and rc=3 and m=3 and c=3, OF _ ex] by simp
    finally show "\<exists>r. outcome execute 3 w = Inr r \<and>
             execute_with_retry cfg execute w = (r, world_after execute 4 w, 4)"
      using r by blast
  }
  {
    fix k r
    assume k: "k < 4"
      and h: "(\<forall>j<k. transient_failure (outcome execute j w)) \<and>
         outcome execute k w = Inr r \<and> (success r \<or> \<not> retry_allowed r)"
    have ex: "execute (world_after execute k w) = (Inr r, world_after execute (Suc k) w)"
      using h world_after_Suc_right[of execute k w]
      by (cases "execute (world_after execute k w)") (simp add: outcome_def)
    have "execute_with_retry cfg execute w
            = retry_loop cfg execute 3 k (world_after execute k w) k"
      using retry_loop_skip[OF q, of k execute w 0 3 0] h k
      by (simp add: execute_with_retry_def max_retries_def)
    also have "\<dots> = (r, world_after execute (Suc k) w, Suc k)"
      using retry_loop_final_result[where ex=execute and rc=k and m=3 and c=k, OF _ ex] h k
      by auto
    finally show "execute_with_retry cfg execute w = (r, world_after execute (Suc k) w, Suc k)" .
  }
  {
    fix k e
    assume k: "k < 4"
      and h: "(\<forall>j<k. transient_failure (outcome execute j w)) \<and> outcome execute k w = Inl e"
    have ex: "execute (world_after execute k w) = (Inl e, world_after execute (Suc k) w)"
      using h world_after_Suc_right[of execute k w]
      by (cases "execute (world_after execute k w)") (simp add: outcome_def)
    have "execute_with_retry cfg execute w
            = retry_loop cfg execute 3 k (world_after execute k w) k"
      using retry_loop_skip[OF q, of k execute w 0 3 0] h k
      by (simp add: execute_with_retry_def max_retries_def)
    also have "\<dots> = (exception_result e, world_after execute (Suc k) w, Suc k)"
      using retry_loop_exception[where ex=execute and rc=k and m=3 and c=k, OF _ ex] k by simp
    finally show "execute_with_retry cfg execute w
           = (exception_result e, world_after execute (Suc k) w, Suc k)" .
  }
qed

text \<open>
  Claim C5 says that \<open>execute_with_retry\<close> retries a failure marked
  \<open>retry_allowed\<close> up to three times and returns the fourth failing result unchanged.
  With the default settings (log level \<open>INFO\<close>) and an adapter that answers every call
  with such a failure, the announcement of the first retry raises inside the \<open>try\<close>
  block: the adapter is called once, and the result is the one of the \<open>except\<close> branch,
  which does not allow a retry and is not the result of the adapter.
\<close>

theorem execute_with_retry_gives_up_after_one_call:
  \<open>execute_with_retry default_settings
     (\<lambda>n::nat. (Inr \<lparr>success = False, data = None, error = Some ''timeout'',
                        retry_allowed = True\<rparr>, Suc n)) 0
   = (\<lparr>success = False, data = None,
       error = Some ''Tool execution exception: "Attempt to overwrite 'message' in LogRecord"'',
       retry_allowed = False\<rparr>, 1, 1)\<close>
  unfolding execute_with_retry_def max_retries_def
  by (subst retry_loop.simps)
     (simp add: log_with_message_def is_enabled_for_def default_settings_def
        exception_result_def overwrite_message_def)

section \<open>Properties of the decision engine\<close>

lemma clamp_unit_finite: "\<exists>r. py_max (Finite 0) (py_min (Finite 1) c) = Finite r"
  by (cases c) (simp_all add: py_max_def py_min_def)

lemma clamp_unit_range: "0 \<le> clamp_unit c \<and> clamp_unit c \<le> 1"
  by (cases c) (simp_all add: clamp_unit_def py_max_def py_min_def)

lemma clamp_unit_Finite: "clamp_unit (Finite x) = max 0 (min 1 x)"
  by (simp add: clamp_unit_def py_max_def py_min_def max_def min_def)

lemma parse_decision_confidence_range:
  "0 \<le> out_confidence (parse_decision float response) \<and>
   out_confidence (parse_decision float response) \<le> 1"
  using clamp_unit_range
  by (simp add: parse_decision_def Let_def split: option.splits)

lemma decide_confidence_range:
  "0 \<le> out_confidence (decide generate float q h ctx n) \<and>
   out_confidence (decide generate float q h ctx n) \<le> 1"
  using parse_decision_confidence_range
  by (simp add: decide_def Let_def split: sum.splits)

lemma Decision_closed: "d \<in> {RETRIEVE, REASON_ONLY, USE_TOOL, CLARIFY, ESCALATE}"
  by (cases d) simp_all

text \<open>
  Claim C7. For every response text and every behaviour of \<open>float\<close>: a missing
  \<open>DECISION\<close> key, or a value that is none of the five names, gives \<open>ESCALATE\<close>; a
  \<open>CONFIDENCE\<close> value that \<open>float\<close> rejects gives 0.5; the decision is one of the
  five values and the confidence lies in \<open>[0, 1]\<close>, for the parser and for \<open>decide\<close>.
\<close>

theorem parse_decision_total:
  "(parse_fields response ''DECISION'' = None \<longrightarrow>
      out_decision (parse_decision float response) = ESCALATE) \<and>
   (\<forall>v. parse_fields response ''DECISION'' = Some v \<and>
        v \<notin> {''RETRIEVE'', ''REASON_ONLY'', ''USE_TOOL'', ''CLARIFY'', ''ESCALATE''} \<longrightarrow>
      out_decision (parse_decision float response) = ESCALATE) \<and>
   (\<forall>v. parse_fields response ''CONFIDENCE'' = Some v \<and> float v = None \<longrightarrow>
      out_confidence (parse_decision float response) = 0.5) \<and>
   out_decision (parse_decision float response)
     \<in> {RETRIEVE, REASON_ONLY, USE_TOOL, CLARIFY, ESCALATE} \<and>
   0 \<le> out_confidence (parse_decision float response) \<and>
   out_confidence (parse_decision float response) \<le> 1 \<and>
   out_decision (decide generate float q h ctx n)
     \<in> {RETRIEVE, REASON_ONLY, USE_TOOL, CLARIFY, ESCALATE} \<and>
   0 \<le> out_confidence (decide generate float q h ctx n) \<and>
   out_confidence (decide generate float q h ctx n) \<le> 1"
proof (intro conjI allI impI)
  assume "parse_fields response ''DECISION'' = None"
  then show "out_decision (parse_decision float response) = ESCALATE"
    by (simp add: parse_decision_def Let_def dict_get_def decision_map_def)
next
  fix v
  assume "parse_fields response ''DECISION'' = Some v \<and>
        v \<notin> {''RETRIEVE'', ''REASON_ONLY'', ''USE_TOOL'', ''CLARIFY'', ''ESCALATE''}"
  then show "out_decision (parse_decision float response) = ESCALATE"
    by (simp add: parse_decision_def Let_def dict_get_def decision_map_def)
next
  fix v
  assume "parse_fields response ''CONFIDENCE'' = Some v \<and> float v = None"
  then show "out_confidence (parse_decision float response) = 0.5"
    by (simp add: parse_decision_def Let_def dict_get_def)
next
  show "out_decision (parse_decision float response)
     \<in> {RETRIEVE, REASON_ONLY, USE_TOOL, CLARIFY, ESCALATE}"
    by (rule Decision_closed)
next
  show "out_decision (decide generate float q h ctx n)
     \<in> {RETRIEVE, REASON_ONLY, USE_TOOL, CLARIFY, ESCALATE}"
    by (rule Decision_closed)
qed (simp_all add: parse_decision_confidence_range decide_confidence_range)

lemma parse_fields_example:
  "parse_fields (''DECISION: MAYBE'' @ [CHR 0x0A] @ ''CONFIDENCE: high'') ''DECISION'' = Some ''MAYBE'' \<and>
   parse_fields (''DECISION: MAYBE'' @ [CHR 0x0A] @ ''CONFIDENCE: high'') ''CONFIDENCE'' = Some ''high''"
  by (simp add: parse_fields_def parse_line_def strip_def is_space_def upper_def char_upper_def)

lemma parse_fields_example2:
  "parse_fields ''Sure, happy to help'' ''DECISION'' = None"
  by (simp add: parse_fields_def parse_line_def strip_def is_space_def upper_def char_upper_def)

text \<open>
  The parser on a response without any key, and on one with an unknown decision and an
  unreadable confidence.
\<close>

theorem parse_decision_total_witness:
  "out_decision (parse_decision Map.empty ''Sure, happy to help'') = ESCALATE \<and>
   out_decision (parse_decision Map.empty
      (''DECISION: MAYBE'' @ [CHR 0x0A] @ ''CONFIDENCE: high'')) = ESCALATE \<and>
   out_confidence (parse_decision Map.empty
      (''DECISION: MAYBE'' @ [CHR 0x0A] @ ''CONFIDENCE: high'')) = 0.5"
  using parse_decision_total[of "''Sure, happy to help''" Map.empty]
        parse_decision_total[of "''DECISION: MAYBE'' @ [CHR 0x0A] @ ''CONFIDENCE: high''" Map.empty]
        parse_fields_example parse_fields_example2
  by simp

lemma clamp_mono: "a \<le> b \<Longrightarrow> max 0 (min 1 a) \<le> max (0::real) (min 1 b)"
  by (simp add: max_def min_def)

lemma calculate_confidence_base_mono:
  assumes "0.3 * sq + 0.2 * (1 - qc) + 0.3 * cc + 0.2 * tsr
     \<le> 0.3 * sq' + 0.2 * (1 - qc') + 0.3 * cc' + 0.2 * tsr'"
  shows "calculate_confidence sq qc cc tsr conflict \<le> calculate_confidence sq' qc' cc' tsr' conflict"
proof -
  define b where "b = 0.3 * sq + 0.2 * (1 - qc) + 0.3 * cc + 0.2 * tsr"
  define b' where "b' = 0.3 * sq' + 0.2 * (1 - qc') + 0.3 * cc' + 0.2 * tsr'"
  have le: "b \<le> b'" using assms by (simp add: b_def b'_def)
  have eq: "calculate_confidence sq qc cc tsr conflict
              = max 0 (min 1 (if conflict then b * 0.5 else b))"
           "calculate_confidence sq' qc' cc' tsr' conflict
              = max 0 (min 1 (if conflict then b' * 0.5 else b'))"
    by (simp_all add: calculate_confidence_def Let_def b_def b'_def)
  have "(if conflict then b * 0.5 else b) \<le> (if conflict then b' * 0.5 else b')"
    using le by simp
  then show ?thesis
    unfolding eq by (rule clamp_mono)
qed

text \<open>
  Claim C8. \<open>calculate_confidence\<close> is the weighted sum, halved on conflict, clamped
  to \<open>[0, 1]\<close>. It does not decrease when the source quality, the context completeness
  or the tool success rate grows, does not increase when the query complexity grows, and
  for inputs in \<open>[0, 1]\<close> the value with conflict is half the value without.
\<close>

theorem calculate_confidence_weighted:
  "calculate_confidence sq qc cc tsr conflict =
     max 0 (min 1 ((if conflict then 0.5 else 1)
                     * (0.3 * sq + 0.2 * (1 - qc) + 0.3 * cc + 0.2 * tsr))) \<and>
   (sq \<le> sq' \<longrightarrow>
      calculate_confidence sq qc cc tsr conflict \<le> calculate_confidence sq' qc cc tsr conflict) \<and>
   (cc \<le> cc' \<longrightarrow>
      calculate_confidence sq qc cc tsr conflict \<le> calculate_confidence sq qc cc' tsr conflict) \<and>
   (tsr \<le> tsr' \<longrightarrow>
      calculate_confidence sq qc cc tsr conflict \<le> calculate_confidence sq qc cc tsr' conflict) \<and>
   (qc \<le> qc' \<longrightarrow>
      calculate_confidence sq qc' cc tsr conflict \<le> calculate_confidence sq qc cc tsr conflict) \<and>
   (0 \<le> sq \<and> sq \<le> 1 \<and> 0 \<le> qc \<and> qc \<le> 1 \<and> 0 \<le> cc \<and> cc \<le> 1 \<and> 0 \<le> tsr \<and> tsr \<le> 1 \<longrightarrow>
      calculate_confidence sq qc cc tsr True = calculate_confidence sq qc cc tsr False / 2)"
proof (intro conjI impI)
  show "calculate_confidence sq qc cc tsr conflict =
     max 0 (min 1 ((if conflict then 0.5 else 1)
                     * (0.3 * sq + 0.2 * (1 - qc) + 0.3 * cc + 0.2 * tsr)))"
    by (simp add: calculate_confidence_def Let_def)
next
  assume "sq \<le> sq'"
  then show "calculate_confidence sq qc cc tsr conflict \<le> calculate_confidence sq' qc cc tsr conflict"
    by (intro calculate_confidence_base_mono) simp
next
  assume "cc \<le> cc'"
  then show "calculate_confidence sq qc cc tsr conflict \<le> calculate_confidence sq qc cc' tsr conflict"
    by (intro calculate_confidence_base_mono) simp
next
  assume "tsr \<le> tsr'"
  then show "calculate_confidence sq qc cc tsr conflict \<le> calculate_confidence sq qc cc tsr' conflict"
    by (intro calculate_confidence_base_mono) simp
next
  assume "qc \<le> qc'"
  then show "calculate_confidence sq qc' cc tsr conflict \<le> calculate_confidence sq qc cc tsr conflict"
    by (intro calculate_confidence_base_mono) simp
next
  assume r: "0 \<le> sq \<and> sq \<le> 1 \<and> 0 \<le> qc \<and> qc \<le> 1 \<and> 0 \<le> cc \<and> cc \<le> 1 \<and> 0 \<le> tsr \<and> tsr \<le> 1"
  define b where "b = 0.3 * sq + 0.2 * (1 - qc) + 0.3 * cc + 0.2 * tsr"
  from r have f: "0 \<le> sq" "sq \<le> 1" "0 \<le> qc" "qc \<le> 1" "0 \<le> cc" "cc \<le> 1" "0 \<le> tsr" "tsr \<le> 1"
    by simp_all
  have "0 \<le> b" unfolding b_def using f by argo
  have "b \<le> 1" unfolding b_def using f by argo
  with \<open>0 \<le> b\<close> have "max 0 (min 1 (b * 0.5)) = max 0 (min 1 b) / 2"
    by (simp add: max_def min_def)
  then show "calculate_confidence sq qc cc tsr True = calculate_confidence sq qc cc tsr False / 2"
    by (simp add: calculate_confidence_def Let_def b_def)
qed

text \<open>The five comparisons at inputs between 0.5 and 1.\<close>

theorem calculate_confidence_weighted_witness:
  "calculate_confidence 0.5 0.5 0.5 0.5 False \<le> calculate_confidence 1 0.5 0.5 0.5 False \<and>
   calculate_confidence 0.5 0.5 0.5 0.5 False \<le> calculate_confidence 0.5 0.5 1 0.5 False \<and>
   calculate_confidence 0.5 0.5 0.5 0.5 False \<le> calculate_confidence 0.5 0.5 0.5 1 False \<and>
   calculate_confidence 0.5 1 0.5 0.5 False \<le> calculate_confidence 0.5 0.5 0.5 0.5 False \<and>
   calculate_confidence 0.5 0.5 0.5 0.5 True = calculate_confidence 0.5 0.5 0.5 0.5 False / 2"
  using calculate_confidence_weighted[of "0.5" "0.5" "0.5" "0.5" False 1 1 1 1]
        calculate_confidence_weighted[of "0.5" "0.5" "0.5" "0.5" True 1 1 1 1]
  by simp

text \<open>
  Claim C6. When the generation call of \<open>decide\<close> raises, \<open>decide\<close> returns the
  fallback output: \<open>ESCALATE\<close>, confidence 0, no tools, no retrieval, reason
  \<open>internal_error\<close>. \<open>decide\<close> is a total function into \<open>decision_output\<close>: no
  exception reaches its caller.
\<close>

theorem decide_generation_failure:
  "generate (build_decision_prompt q history ctx n_sources)
      decision_system_prompt 0.3 500 = Inl e \<Longrightarrow>
   decide generate float q history ctx n_sources =
     \<lparr>out_decision = ESCALATE, out_confidence = 0.0,
      out_reasoning = ''Decision engine error: '' @ e,
      out_required_tools = [], out_retrieval_needed = False,
      out_escalation_reason = Some ''internal_error''\<rparr>"
  by (simp add: decide_def)

text \<open>The same for a provider that answers every call with an error.\<close>

theorem decide_generation_failure_witness:
  "decide (\<lambda>prompt system_prompt temperature max_tokens. Inl ''503'') Map.empty
      ''What are your prices?'' [] Map.empty 0 =
     \<lparr>out_decision = ESCALATE, out_confidence = 0.0,
      out_reasoning = ''Decision engine error: 503'',
      out_required_tools = [], out_retrieval_needed = False,
      out_escalation_reason = Some ''internal_error''\<rparr>"
  using decide_generation_failure
    [of "\<lambda>prompt system_prompt temperature max_tokens. Inl ''503''"
        "''What are your prices?''" "[]" Map.empty 0 "''503''" Map.empty]
  by simp

section \<open>Properties of the reranker\<close>

lemma rescore_fixed: "score (rescore rr clk e) = score e \<Longrightarrow> rescore rr clk e = e"
  by (simp add: rescore_def Let_def)

lemma rerank_sorted: "sorted (map (\<lambda>e. - score e) (rerank rr clk xs))"
  by (simp add: rerank_def)

lemma rerank_mset: "mset (rerank rr clk xs) = mset (map (rescore rr clk) xs)"
  by (simp add: rerank_def)

lemma score_rescore:
  "score (rescore rr clk e) =
     cosine_weight rr * score e + recency_weight rr * calculate_recency_score clk e
       + quality_weight rr * calculate_quality_score e"
  by (simp add: rescore_def Let_def)

lemma recency_rescore: "calculate_recency_score clk (rescore rr clk' e) = calculate_recency_score clk e"
  by (simp add: calculate_recency_score_def rescore_def Let_def)

lemma quality_rescore: "calculate_quality_score (rescore rr clk e) = calculate_quality_score e"
  by (simp add: calculate_quality_score_def rescore_def Let_def)

text \<open>
  Claim C3 says that \<open>rerank\<close> applied to its own output returns the same order and
  scores. It does not: with the default weights and two undated chunks, a general one of
  score 1 and a pricing one of score 0.89, the first pass gives the scores 0.88 and 0.874
  in that order, and the second pass gives 0.8644 for the pricing chunk and 0.808 for the
  general one, in the opposite order.
\<close>

theorem rerank_not_idempotent:
  "rerank default_reranker epoch_clock [general_note 1, pricing_note 0.89]
     = [general_note 0.88, pricing_note 0.874] \<and>
   rerank default_reranker epoch_clock
     (rerank default_reranker epoch_clock [general_note 1, pricing_note 0.89])
     = [pricing_note 0.8644, general_note 0.808] \<and>
   rerank default_reranker epoch_clock
     (rerank default_reranker epoch_clock [general_note 1, pricing_note 0.89])
     \<noteq> rerank default_reranker epoch_clock [general_note 1, pricing_note 0.89]"
  by (simp add: plain_metadata_def general_note_def pricing_note_def epoch_clock_def
        rerank_def rescore_def Let_def default_reranker_def calculate_recency_score_def
        calculate_quality_score_def quality_map_def dict_get_def)

text \<open>
  Claim C3 as amended. The second pass scores every item again, from its first composite
  score: the result holds the items of the input rescored twice, sorted by descending
  score, and the second score is \<open>cosine_weight\<close> times the first composite plus the
  same recency and quality terms. The second pass returns the output of the first
  unchanged when every score of that output is a fixed point of the scoring formula.
\<close>

theorem rerank_twice:
  "mset (rerank rr clk (rerank rr clk xs)) = mset (map (rescore rr clk \<circ> rescore rr clk) xs) \<and>
   sorted (map (\<lambda>e. - score e) (rerank rr clk (rerank rr clk xs))) \<and>
   score (rescore rr clk (rescore rr clk e)) =
     cosine_weight rr * score (rescore rr clk e)
       + recency_weight rr * calculate_recency_score clk e
       + quality_weight rr * calculate_quality_score e \<and>
   ((\<forall>e \<in> set (rerank rr clk xs). score (rescore rr clk e) = score e) \<longrightarrow>
      rerank rr clk (rerank rr clk xs) = rerank rr clk xs)"
proof (intro conjI impI)
  have "mset (rerank rr clk (rerank rr clk xs)) = image_mset (rescore rr clk) (mset (rerank rr clk xs))"
    by (simp add: rerank_mset)
  also have "\<dots> = image_mset (rescore rr clk) (image_mset (rescore rr clk) (mset xs))"
    by (simp add: rerank_mset)
  finally show "mset (rerank rr clk (rerank rr clk xs)) = mset (map (rescore rr clk \<circ> rescore rr clk) xs)"
    by (simp add: multiset.map_comp)
next
  show "sorted (map (\<lambda>e. - score e) (rerank rr clk (rerank rr clk xs)))"
    by (rule rerank_sorted)
next
  show "score (rescore rr clk (rescore rr clk e)) =
     cosine_weight rr * score (rescore rr clk e)
       + recency_weight rr * calculate_recency_score clk e
       + quality_weight rr * calculate_quality_score e"
    by (simp add: score_rescore[of rr clk "rescore rr clk e"] recency_rescore quality_rescore)
next
  assume fixed: "\<forall>e \<in> set (rerank rr clk xs). score (rescore rr clk e) = score e"
  define ys where "ys = rerank rr clk xs"
  have same: "map (rescore rr clk) ys = ys"
    using fixed unfolding ys_def by (intro map_idI) (simp add: rescore_fixed)
  have "sorted (map (\<lambda>e. - score e) ys)"
    unfolding ys_def by (rule rerank_sorted)
  then have "sort_key (\<lambda>e. - score e) ys = ys"
    by (rule sort_key_id_if_sorted)
  then have "rerank rr clk ys = ys"
    using same by (simp add: rerank_def)
  then show "rerank rr clk (rerank rr clk xs) = rerank rr clk xs"
    by (simp add: ys_def)
qed

text \<open>
  An undated general chunk of score 0.7 and an undated pricing chunk of score 0.85 are
  such fixed points: \<open>0.6 * 0.7 + 0.2 * 0.7 + 0.2 * 0.7 = 0.7\<close> and
  \<open>0.6 * 0.85 + 0.2 * 0.7 + 0.2 * 1.0 = 0.85\<close>. The first pass puts the pricing chunk
  first, and the second pass keeps that order and both scores.
\<close>

theorem rerank_twice_witness:
  "rerank default_reranker epoch_clock [general_note 0.7, pricing_note 0.85]
     = [pricing_note 0.85, general_note 0.7] \<and>
   rerank default_reranker epoch_clock
     (rerank default_reranker epoch_clock [general_note 0.7, pricing_note 0.85])
     = [pricing_note 0.85, general_note 0.7]"
proof -
  have first: "rerank default_reranker epoch_clock [general_note 0.7, pricing_note 0.85]
                 = [pricing_note 0.85, general_note 0.7]"
    by (simp add: plain_metadata_def general_note_def pricing_note_def epoch_clock_def
          rerank_def rescore_def Let_def default_reranker_def calculate_recency_score_def
          calculate_quality_score_def quality_map_def dict_get_def)
  have "\<forall>e \<in> set (rerank default_reranker epoch_clock [general_note 0.7, pricing_note 0.85]).
          score (rescore default_reranker epoch_clock e) = score e"
    unfolding first
    by (simp add: plain_metadata_def general_note_def pricing_note_def epoch_clock_def
          rescore_def Let_def default_reranker_def calculate_recency_score_def
          calculate_quality_score_def quality_map_def dict_get_def)
  with rerank_twice[of default_reranker epoch_clock "[general_note 0.7, pricing_note 0.85]"]
  have "rerank default_reranker epoch_clock
          (rerank default_reranker epoch_clock [general_note 0.7, pricing_note 0.85])
        = rerank default_reranker epoch_clock [general_note 0.7, pricing_note 0.85]"
    by blast
  with first show ?thesis by simp
qed

section \<open>Properties of the retriever\<close>

text \<open>
  The \<open>try\<close> block of \<open>retrieve\<close>: when the embedding call has succeeded,
  \<open>retrieve\<close> returns a list and raises nothing; it returns the empty list when the
  query it makes of the vector store fails, and when the hits of that query cannot be
  converted to evidence.
\<close>

lemma retrieve_store_failure_degrades:
  assumes "embed_single r q = Inr v"
  shows "(\<exists>evidence_list. retrieve r q top_k_arg doc_type_filter metadata_filter = Inr evidence_list) \<and>
         (\<forall>e. vector_store_query r [v] (requested_k r top_k_arg)
                 (build_where doc_type_filter metadata_filter) = Inl e \<longrightarrow>
            retrieve r q top_k_arg doc_type_filter metadata_filter = Inr []) \<and>
         (\<forall>results. vector_store_query r [v] (requested_k r top_k_arg)
                 (build_where doc_type_filter metadata_filter) = Inr results \<and>
               hits_to_evidence (utcnow r) results = None \<longrightarrow>
            retrieve r q top_k_arg doc_type_filter metadata_filter = Inr [])"
  using assms by (auto simp: retrieve_def Let_def split: sum.splits option.splits)

lemma retrieve_store_failure_examples:
  "retrieve store_outage ''What are your prices?'' None None None = Inr [] \<and>
   retrieve store_without_metadata ''What are your prices?'' None None None = Inr []"
  by (simp add: retrieve_def Let_def store_outage_def store_without_metadata_def
        pricing_store_def hits_to_evidence_def hit_to_evidence_def nth_opt_def)

text \<open>
  Claim C9 says that any failure of the retrieval stage, of the embedding call or of the
  store query, makes \<open>retrieve\<close> return the empty list, so that the run goes on.
  \<open>retrieve\<close> calls \<open>embed_single\<close> before its \<open>try\<close> block: when the embedding
  provider fails, the exception leaves \<open>retrieve\<close>, which does not return the empty
  list, and leaves \<open>retrieve_rag\<close>, which does not catch it either.
\<close>

theorem retrieve_embedding_failure_propagates:
  "retrieve embedding_outage ''What are your prices?'' None None None
     = Inl ''embedding provider unavailable'' \<and>
   retrieve embedding_outage ''What are your prices?'' None None None \<noteq> Inr [] \<and>
   retrieve_rag default_settings embedding_outage default_reranker epoch_clock pricing_question
     = Inl ''embedding provider unavailable''"
  by (simp add: retrieve_def retrieve_rag_def embedding_outage_def pricing_store_def
        pricing_question_def initial_state_def default_settings_def)

section \<open>Properties of the retrieval stage\<close>

lemma retrieve_rag_cases:
  assumes "retrieve_rag cfg r rr clk st = Inr st'"
  shows "(\<not> retrieval_needed st \<and> st' = st) \<or>
         (retrieval_needed st \<and>
          (\<exists>ev. retrieve r (query st) (Some (rag_top_k cfg)) None None = Inr ev \<and>
             reranked_sources st' =
               filter_low_quality cfg (rerank rr clk ev) (Some (rag_confidence_threshold cfg)) \<and>
             retrieved_sources st' = rerank rr clk ev \<and>
             escalated st' = escalated st \<and>
             (detect_conflicts (reranked_sources st') \<longrightarrow> log_with_message cfg WARNING = None) \<and>
             confidence st' =
               (if detect_conflicts (reranked_sources st') then confidence st * 0.7
                else confidence st)))"
proof (cases "retrieval_needed st")
  case False
  with assms show ?thesis by (simp add: retrieve_rag_def)
next
  case True
  show ?thesis
  proof (cases "retrieve r (query st) (Some (rag_top_k cfg)) None None")
    case (Inl e)
    with True assms show ?thesis by (simp add: retrieve_rag_def)
  next
    case (Inr ev)
    show ?thesis
    proof (cases "detect_conflicts (filter_low_quality cfg (rerank rr clk ev)
                    (Some (rag_confidence_threshold cfg)))")
      case False
      with Inr True assms show ?thesis
        by (auto simp: retrieve_rag_def Let_def)
    next
      case conflict: True
      show ?thesis
      proof (cases "log_with_message cfg WARNING")
        case None
        with conflict Inr True assms show ?thesis
          by (auto simp: retrieve_rag_def Let_def)
      next
        case (Some e)
        with conflict Inr True assms show ?thesis
          by (simp add: retrieve_rag_def Let_def)
      qed
    qed
  qed
qed

text \<open>
  What the node does when it returns: the confidence is multiplied by 0.7 if retrieval was
  needed and \<open>detect_conflicts\<close> holds of the filtered list it stored, and is unchanged
  otherwise; a confidence in \<open>[0, 1]\<close> stays there; and a run that was not escalated,
  whose confidence passed the low threshold before the penalty and is below it after, is
  escalated by \<open>compose_response\<close> with the reason \<open>confidence_below_threshold\<close>. In
  the case of a conflict the node returns only when the level \<open>WARNING\<close> is disabled.
\<close>

lemma retrieve_rag_penalty_when_returned:
  assumes "retrieve_rag cfg r rr clk st = Inr st'"
  shows "(retrieval_needed st \<and> detect_conflicts (reranked_sources st') \<longrightarrow>
            confidence st' = confidence st * 0.7 \<and> \<not> is_enabled_for cfg WARNING) \<and>
         (\<not> (retrieval_needed st \<and> detect_conflicts (reranked_sources st')) \<longrightarrow>
            confidence st' = confidence st) \<and>
         (0 \<le> confidence st \<and> confidence st \<le> 1 \<longrightarrow>
            0 \<le> confidence st' \<and> confidence st' \<le> 1) \<and>
         (retrieval_needed st \<and> detect_conflicts (reranked_sources st') \<and> \<not> escalated st \<and>
          confidence_low_threshold cfg \<le> confidence st \<and>
          confidence st * 0.7 < confidence_low_threshold cfg \<and>
          generate (compose_prompt st') compose_system_prompt 0.7 500 = Inr text \<longrightarrow>
            engine_should_escalate cfg (confidence st) False False = (False, None) \<and>
            escalated (compose_response generate cfg st') \<and>
            escalation_reason (compose_response generate cfg st')
              = Some ''confidence_below_threshold'')"
proof (intro conjI impI)
  assume "retrieval_needed st \<and> detect_conflicts (reranked_sources st')"
  then show "confidence st' = confidence st * 0.7"
    using retrieve_rag_cases[OF assms] by auto
next
  assume "retrieval_needed st \<and> detect_conflicts (reranked_sources st')"
  then have "log_with_message cfg WARNING = None"
    using retrieve_rag_cases[OF assms] by auto
  then show "\<not> is_enabled_for cfg WARNING"
    by (simp add: log_with_message_def split: if_splits)
next
  assume "\<not> (retrieval_needed st \<and> detect_conflicts (reranked_sources st'))"
  then show "confidence st' = confidence st"
    using retrieve_rag_cases[OF assms] by auto
next
  assume "0 \<le> confidence st \<and> confidence st \<le> 1"
  moreover have "confidence st' = confidence st \<or> confidence st' = confidence st * 0.7"
    using retrieve_rag_cases[OF assms] by (auto split: if_splits)
  ultimately show "0 \<le> confidence st'" "confidence st' \<le> 1"
    by auto
next
  assume h: "retrieval_needed st \<and> detect_conflicts (reranked_sources st') \<and> \<not> escalated st \<and>
          confidence_low_threshold cfg \<le> confidence st \<and>
          confidence st * 0.7 < confidence_low_threshold cfg \<and>
          generate (compose_prompt st') compose_system_prompt 0.7 500 = Inr text"
  then have c: "confidence st' = confidence st * 0.7" and e: "\<not> escalated st'"
    and q: "log_with_message cfg WARNING = None"
    using retrieve_rag_cases[OF assms] by auto
  show "engine_should_escalate cfg (confidence st) False False = (False, None)"
    using h by (simp add: engine_should_escalate_def)
  show "escalated (compose_response generate cfg st')"
    using h c e q by (simp add: compose_response_def engine_should_escalate_def Let_def)
  show "escalation_reason (compose_response generate cfg st')
              = Some ''confidence_below_threshold''"
    using h c e q by (simp add: compose_response_def engine_should_escalate_def Let_def)
qed

text \<open>
  With the level \<open>WARNING\<close> enabled, the warning that follows the penalty raises and
  leaves the node; and the warning of \<open>compose_response\<close> on a confidence below the
  threshold raises into its \<open>except\<close> branch.
\<close>

lemma retrieve_rag_conflict_raises:
  assumes "retrieval_needed st"
    and "retrieve r (query st) (Some (rag_top_k cfg)) None None = Inr ev"
    and "detect_conflicts (filter_low_quality cfg (rerank rr clk ev)
           (Some (rag_confidence_threshold cfg)))"
    and "is_enabled_for cfg WARNING"
  shows "retrieve_rag cfg r rr clk st = Inl overwrite_message"
  using assms by (simp add: retrieve_rag_def Let_def log_with_message_def)

lemma compose_response_low_confidence_raises:
  assumes "generate (compose_prompt st) compose_system_prompt 0.7 500 = Inr text"
    and "\<not> escalated st" and "confidence st < confidence_low_threshold cfg"
    and "is_enabled_for cfg WARNING"
  shows "response_text (compose_response generate cfg st) = apology \<and>
         escalation_reason (compose_response generate cfg st)
           = Some ''response_generation_error'' \<and>
         errors (compose_response generate cfg st)
           = errors st @ [''Response composition failed: '' @ overwrite_message]"
  using assms
  by (simp add: compose_response_def engine_should_escalate_def Let_def log_with_message_def
        composition_failed_def)

lemma pricing_hits_conflict: "detect_conflicts pricing_hits"
  by (simp add: pricing_hits_def detect_conflicts_def group_by_type_def spread_conflict_def
        list_max_def list_min_def dict_get_def Let_def)

lemma pricing_question_retrieve_rag_raises:
  "retrieve_rag default_settings pricing_store default_reranker epoch_clock pricing_question
   = Inl overwrite_message"
  by (simp add: retrieve_rag_def retrieve_def requested_k_def build_where_def hits_to_evidence_def
        hit_to_evidence_def nth_opt_def Let_def default_settings_def initial_state_def
        rerank_def rescore_def default_reranker_def calculate_recency_score_def
        calculate_quality_score_def quality_map_def dict_get_def filter_low_quality_def
        detect_conflicts_def group_by_type_def spread_conflict_def list_max_def list_min_def
        pricing_store_def pricing_question_def pricing_hits_def pricing_chunk_def
        epoch_clock_def log_with_message_def is_enabled_for_def)

lemma pricing_question_retrieve_rag_quiet:
  "retrieve_rag (default_settings\<lparr>log_level := ERROR\<rparr>) pricing_store default_reranker
     epoch_clock pricing_question
   = Inr (pricing_question\<lparr>confidence := 0.42, retrieved_sources := pricing_hits,
                            reranked_sources := pricing_hits\<rparr>)"
  by (simp add: retrieve_rag_def retrieve_def requested_k_def build_where_def hits_to_evidence_def
        hit_to_evidence_def nth_opt_def Let_def default_settings_def initial_state_def
        rerank_def rescore_def default_reranker_def calculate_recency_score_def
        calculate_quality_score_def quality_map_def dict_get_def filter_low_quality_def
        detect_conflicts_def group_by_type_def spread_conflict_def list_max_def list_min_def
        pricing_store_def pricing_question_def pricing_hits_def pricing_chunk_def
        epoch_clock_def log_with_message_def is_enabled_for_def)

text \<open>
  Claim C10 says that a conflict found by the retrieval node multiplies the confidence by
  0.7 before composition, so that composition can escalate a run whose confidence passed
  before the penalty. Take the pricing question at confidence 0.6 with the default
  settings (log level \<open>INFO\<close>, low threshold 0.5): the two pricing chunks get the scores
  0.94 and 0.61, whose spread exceeds 0.3. The node multiplies the confidence and then
  raises from its warning, so the run never reaches composition with the confidence
  0.42; only with the log level \<open>ERROR\<close> does the node return that state. And
  \<open>compose_response\<close>, given that state and the default settings, escalates with the
  reason \<open>response_generation_error\<close> and the apology, not with
  \<open>confidence_below_threshold\<close>.
\<close>

theorem retrieve_rag_conflict_warning_raises:
  "detect_conflicts pricing_hits \<and>
   retrieve_rag default_settings pricing_store default_reranker epoch_clock pricing_question
     = Inl overwrite_message \<and>
   retrieve_rag (default_settings\<lparr>log_level := ERROR\<rparr>) pricing_store default_reranker
       epoch_clock pricing_question
     = Inr (pricing_question\<lparr>confidence := 0.42, retrieved_sources := pricing_hits,
                              reranked_sources := pricing_hits\<rparr>) \<and>
   escalation_reason (compose_response
       (\<lambda>prompt system_prompt temperature max_tokens. Inr ''Plan A costs 100.'')
       default_settings
       (pricing_question\<lparr>confidence := 0.42, retrieved_sources := pricing_hits,
                          reranked_sources := pricing_hits\<rparr>))
     = Some ''response_generation_error'' \<and>
   response_text (compose_response
       (\<lambda>prompt system_prompt temperature max_tokens. Inr ''Plan A costs 100.'')
       default_settings
       (pricing_question\<lparr>confidence := 0.42, retrieved_sources := pricing_hits,
                          reranked_sources := pricing_hits\<rparr>))
     = apology"
proof (intro conjI)
  show "detect_conflicts pricing_hits"
    by (rule pricing_hits_conflict)
next
  show "retrieve_rag default_settings pricing_store default_reranker epoch_clock pricing_question
     = Inl overwrite_message"
    by (rule pricing_question_retrieve_rag_raises)
next
  show "retrieve_rag (default_settings\<lparr>log_level := ERROR\<rparr>) pricing_store default_reranker
       epoch_clock pricing_question
     = Inr (pricing_question\<lparr>confidence := 0.42, retrieved_sources := pricing_hits,
                              reranked_sources := pricing_hits\<rparr>)"
    by (rule pricing_question_retrieve_rag_quiet)
next
  let ?g = "\<lambda>prompt system_prompt temperature max_tokens. Inr ''Plan A costs 100.''"
  let ?st = "pricing_question\<lparr>confidence := 0.42, retrieved_sources := pricing_hits,
                          reranked_sources := pricing_hits\<rparr>"
  have low: "\<not> escalated ?st" "confidence ?st < confidence_low_threshold default_settings"
       "is_enabled_for default_settings WARNING"
       "?g (compose_prompt ?st) compose_system_prompt 0.7 500 = Inr ''Plan A costs 100.''"
    by (simp_all add: pricing_question_def initial_state_def default_settings_def
          is_enabled_for_def)
  from compose_response_low_confidence_raises[OF low(4) low(1) low(2) low(3)]
  show "escalation_reason (compose_response ?g default_settings ?st)
          = Some ''response_generation_error''"
       "response_text (compose_response ?g default_settings ?st) = apology"
    by blast+
qed

section \<open>Properties of the pipeline stages\<close>

lemma parse_fields_escalate: "parse_fields ''DECISION: ESCALATE'' ''DECISION'' = Some ''ESCALATE''"
  by (simp add: parse_fields_def parse_line_def strip_def is_space_def upper_def char_upper_def)

lemma parse_decision_escalate:
  "out_decision (parse_decision float ''DECISION: ESCALATE'') = ESCALATE \<and>
   out_escalation_reason (parse_decision float ''DECISION: ESCALATE'') = None"
  by (simp add: parse_decision_def Let_def parse_fields_escalate dict_get_def decision_map_def)

text \<open>
  Claim C2 says that an escalated run state always carries a reason. When the model
  answers \<open>DECISION: ESCALATE\<close>, \<open>_parse_decision\<close> builds the output without an
  escalation reason, and \<open>decide_action\<close> copies it: the state is escalated with the
  reason \<open>None\<close>, and \<open>compose_response\<close> leaves it so.
\<close>

theorem parsed_escalate_has_no_reason:
  "escalated (decide_action (\<lambda>prompt system_prompt temperature max_tokens. Inr ''DECISION: ESCALATE'')
                float (initial_state email q src tid)) \<and>
   escalation_reason (decide_action (\<lambda>prompt system_prompt temperature max_tokens. Inr ''DECISION: ESCALATE'')
                float (initial_state email q src tid)) = None \<and>
   escalated (compose_response (\<lambda>prompt system_prompt temperature max_tokens. Inr ''DECISION: ESCALATE'') cfg
     (decide_action (\<lambda>prompt system_prompt temperature max_tokens. Inr ''DECISION: ESCALATE'')
                float (initial_state email q src tid))) \<and>
   escalation_reason (compose_response (\<lambda>prompt system_prompt temperature max_tokens. Inr ''DECISION: ESCALATE'') cfg
     (decide_action (\<lambda>prompt system_prompt temperature max_tokens. Inr ''DECISION: ESCALATE'')
                float (initial_state email q src tid))) = None"
  using parse_decision_escalate[of float]
  by (simp add: decide_action_def decide_def compose_response_def Let_def split: prod.splits)

text \<open>
  Claim C4. When the generation call of \<open>compose_response\<close> raises, the state
  returned has the fixed apology as its response, is escalated with the reason
  \<open>response_generation_error\<close>, and has the error text appended to its error list;
  nothing else changes. This holds for every state and every exception text.
\<close>

theorem compose_response_generation_failure:
  "generate (compose_prompt state) compose_system_prompt 0.7 500 = Inl e \<Longrightarrow>
   compose_response generate cfg state =
     state\<lparr>errors := errors state @ [''Response composition failed: '' @ e],
           response_text := apology, escalated := True,
           escalation_reason := Some ''response_generation_error''\<rparr>"
  by (simp add: compose_response_def composition_failed_def)

text \<open>The same at the initial state of a run, with a provider that times out.\<close>

theorem compose_response_generation_failure_witness:
  "(let st = compose_response (\<lambda>prompt system_prompt temperature max_tokens. Inl ''timeout'')
               default_settings (initial_state ''a@b.c'' ''What are your prices?'' ''website_form'' ''t1'')
    in response_text st = apology \<and> escalated st \<and>
       escalation_reason st = Some ''response_generation_error'' \<and>
       errors st = [''Response composition failed: timeout''])"
  using compose_response_generation_failure
    [of "\<lambda>prompt system_prompt temperature max_tokens. Inl ''timeout''"
        "initial_state ''a@b.c'' ''What are your prices?'' ''website_form'' ''t1''"
        "''timeout''" default_settings]
  by (simp add: initial_state_def)

section \<open>Properties of the orchestrator\<close>

lemma next_node_not_Tools: "next_node n state \<noteq> Some Tools"
  by (cases n) (simp_all add: should_retrieve_def should_escalate_def)

lemma invoke_from_avoids_Tools:
  "n \<noteq> Tools \<Longrightarrow> Tools \<notin> set (fst (invoke_from nodes n state))"
proof (induction nodes n state rule: invoke_from.induct)
  case (1 nodes n state)
  show ?case
  proof (cases "nodes n state")
    case (Inl e)
    with "1.prems" show ?thesis by (subst invoke_from.simps) simp
  next
    case (Inr state')
    show ?thesis
    proof (cases "next_node n state'")
      case None
      with Inr "1.prems" show ?thesis by (subst invoke_from.simps) simp
    next
      case (Some n')
      then have "n' \<noteq> Tools" using next_node_not_Tools[of n state'] by auto
      then have "Tools \<notin> set (fst (invoke_from nodes n' state'))"
        using "1.IH"[OF Inr Some] by simp
      with Inr Some "1.prems" show ?thesis
        by (subst invoke_from.simps) (simp add: split_beta)
    qed
  qed
qed

text \<open>
  Claim C1 says that a run with pending tool actions and no escalation visits the
  \<open>tools\<close> node before \<open>memory\<close>. The graph has no edge into \<open>tools\<close>: the
  edge out of \<open>compose\<close> is chosen by \<open>should_escalate\<close> alone, and
  \<open>should_use_tools\<close> is never given to \<open>add_conditional_edges\<close>. So from a state
  with \<open>tools_to_use = ["crm_update"]\<close> and \<open>escalated = False\<close>, for which
  \<open>should_use_tools\<close> answers \<open>"tools"\<close>, the run goes from \<open>compose\<close> to
  \<open>memory\<close>; and no run, whatever the nodes do, visits \<open>tools\<close>.
\<close>

theorem tools_node_never_visited:
  "next_node Compose
     ((initial_state email q src tid)\<lparr>tools_to_use := [''crm_update''], escalated := False\<rparr>)
     = Some Memory \<and>
   should_use_tools
     ((initial_state email q src tid)\<lparr>tools_to_use := [''crm_update''], escalated := False\<rparr>)
     = ''tools'' \<and>
   Tools \<notin> set (fst (invoke nodes state))"
  using invoke_from_avoids_Tools[of Intake nodes state]
  by (simp add: invoke_def should_escalate_def should_use_tools_def initial_state_def)

end
